theory Spec2Isabelle
  imports Main
begin

section \<open>Go values and the outside world\<close>

text \<open>
  A Go \<open>error\<close> is identified with the text its \<open>Error()\<close> method returns.
  \<open>diag.Diagnostics\<close> is a list of diagnostics; \<open>diag.Errorf\<close> and \<open>diag.FromErr\<close>
  both build the one-element list holding an error-severity diagnostic.
\<close>

type_synonym go_error = string

datatype severity = Error | Warning

record diagnostic =
  Severity :: severity
  Summary :: string

type_synonym diagnostics = "diagnostic list"

definition diag_Errorf :: "string \<Rightarrow> diagnostics" where
  "diag_Errorf msg = [\<lparr>Severity = Error, Summary = msg\<rparr>]"

definition diag_FromErr :: "go_error \<Rightarrow> diagnostics" where
  "diag_FromErr err = [\<lparr>Severity = Error, Summary = err\<rparr>]"

text \<open>
  Objects of the libraries the provider calls. \<open>rest_config\<close> and \<open>clientset\<close> are the
  opaque results of the Kubernetes client library. \<open>api_TLSConfig\<close>, \<open>api_Config\<close>,
  \<open>api_InitRequest\<close> and \<open>api_InitResponse\<close> are the Vault API structs, with the
  fields the provider sets or reads; \<open>TLSApplied\<close> records the settings a successful
  \<open>ConfigureTLS\<close> installed in the configuration. An \<open>api_Client\<close> is known by what
  its \<open>Address()\<close> method returns. \<open>url_URL\<close> holds the three components of a parsed
  URL that the importer reads.
\<close>

datatype rest_config = RestConfig string

datatype clientset = Clientset rest_config

record api_TLSConfig =
  CACert :: string
  ClientCert :: string
  ClientKey :: string
  Insecure :: bool

record api_Config =
  Address :: string
  TLSApplied :: "api_TLSConfig option"

record api_Client =
  client_Address :: string

record api_InitRequest =
  SecretShares :: int
  SecretThreshold :: int

record api_InitResponse =
  Keys :: "string list"
  KeysB64 :: "string list"
  RootToken :: string

record url_URL =
  Scheme :: string
  Host :: string
  Path :: string

text \<open>
  Everything outside the repository that the code consults is a field of \<open>world\<close>: the
  process environment, the Kubernetes and Vault client libraries, the Vault server behind
  \<open>Sys().Init\<close>, the file system, and the standard library's URL and JSON decoders.
  A call that can fail returns \<open>Inl\<close> of its error.
\<close>

record world =
  os_Getenv :: "string \<Rightarrow> string"
  clientcmd_BuildConfigFromFlags :: "string \<Rightarrow> string \<Rightarrow> go_error + rest_config"
  kubernetes_NewForConfig :: "rest_config \<Rightarrow> go_error + clientset"
  api_ConfigureTLS :: "api_Config \<Rightarrow> api_TLSConfig \<Rightarrow> go_error option"
  api_NewClient :: "api_Config \<Rightarrow> go_error + api_Client"
  sys_Init :: "api_Client \<Rightarrow> api_InitRequest \<Rightarrow> go_error + api_InitResponse"
  url_Parse :: "string \<Rightarrow> go_error + url_URL"
  ioutil_ReadFile :: "string \<Rightarrow> go_error + string"
  json_Unmarshal :: "string \<Rightarrow> go_error + api_InitResponse"

text \<open>
  Every function of the model returns, beside its result, the calls it made to the
  outside world, in program order.
\<close>

datatype event =
    Getenv string
  | BuildConfigFromFlags string string
  | NewForConfig rest_config
  | ConfigureTLS api_TLSConfig
  | NewClient api_Config
  | Init api_Client api_InitRequest
  | ReadFile string
  | Printf string "string list"

text \<open>The Vault client configurations handed to \<open>api.NewClient\<close> during a run.\<close>

fun client_constructions :: "event list \<Rightarrow> api_Config list" where
  "client_constructions [] = []"
| "client_constructions (NewClient c # es) = c # client_constructions es"
| "client_constructions (_ # es) = client_constructions es"

text \<open>The TLS settings handed to \<open>ConfigureTLS\<close> during a run.\<close>

fun tls_applications :: "event list \<Rightarrow> api_TLSConfig list" where
  "tls_applications [] = []"
| "tls_applications (ConfigureTLS t # es) = t # tls_applications es"
| "tls_applications (_ # es) = tls_applications es"

text \<open>The paths handed to \<open>ioutil.ReadFile\<close> during a run.\<close>

fun file_reads :: "event list \<Rightarrow> string list" where
  "file_reads [] = []"
| "file_reads (ReadFile p # es) = p # file_reads es"
| "file_reads (_ # es) = file_reads es"

text \<open>
  \<open>logError(fmt, v...)\<close> calls \<open>log.Printf("[ERROR] "+fmt, v)\<close>: the variadic slice is
  passed on as one argument.
\<close>

definition logError :: "string \<Rightarrow> string list \<Rightarrow> event list" where
  "logError fmt v = [Printf (''[ERROR] '' @ fmt) v]"

section \<open>The provider: constants, schema and structs\<close>

abbreviation envVaultAddr :: string where "envVaultAddr \<equiv> ''VAULT_ADDR''"
abbreviation argVaultUrl :: string where "argVaultUrl \<equiv> ''vault_url''"
abbreviation argVaultAddr :: string where "argVaultAddr \<equiv> ''vault_addr''"

text \<open>
  The provider configuration as the user wrote it: \<open>None\<close> is an attribute left out.
  \<open>kube_block0\<close> has the attributes of the \<open>kube_config\<close> block that both revisions of
  \<open>providerSchema\<close> declare; \<open>kube_block\<close> adds the TLS attributes of the revision in
  \<open>src/unnamed/part_000\<close>.
\<close>

record kube_block0 =
  kb_path :: "string option"
  kb_namespace :: "string option"
  kb_service :: "string option"
  kb_local_port :: "string option"
  kb_remote_port :: "string option"

record kube_block = kube_block0 +
  kb_use_tls :: "bool option"
  kb_ca_cert :: "string option"
  kb_client_cert :: "string option"
  kb_client_key :: "string option"
  kb_use_insecure_tls :: "bool option"

record 'b provider_config =
  cfg_vault_url :: "string option"
  cfg_vault_addr :: "string option"
  cfg_request_headers :: "(string \<times> string) list"
  cfg_kube_config :: "'b list"

text \<open>
  \<open>d.Get\<close> and the block map hand the code the written value of an attribute, else the
  \<open>Default\<close> of its schema entry, else the zero value of its type. \<open>attr_or x dflt\<close> is
  that lookup; the accessors below carry the defaults of \<open>providerSchema\<close>, one for
  each attribute that \<open>configure\<close> reads.
\<close>

definition attr_or :: "'a option \<Rightarrow> 'a \<Rightarrow> 'a" where
  "attr_or x dflt = (case x of Some v \<Rightarrow> v | None \<Rightarrow> dflt)"

definition get_vault_url :: "('b, 'z) provider_config_scheme \<Rightarrow> string" where
  "get_vault_url d = attr_or (cfg_vault_url d) ''''"

definition get_vault_addr :: "('b, 'z) provider_config_scheme \<Rightarrow> string" where
  "get_vault_addr d = attr_or (cfg_vault_addr d) ''''"

definition get_path :: "'z kube_block0_scheme \<Rightarrow> string" where
  "get_path k = attr_or (kb_path k) ''~/.kube/config''"

definition get_namespace :: "'z kube_block0_scheme \<Rightarrow> string" where
  "get_namespace k = attr_or (kb_namespace k) ''''"

definition get_service :: "'z kube_block0_scheme \<Rightarrow> string" where
  "get_service k = attr_or (kb_service k) ''''"

definition get_local_port :: "'z kube_block0_scheme \<Rightarrow> string" where
  "get_local_port k = attr_or (kb_local_port k) ''8200''"

definition get_remote_port :: "'z kube_block0_scheme \<Rightarrow> string" where
  "get_remote_port k = attr_or (kb_remote_port k) ''8200''"

definition get_use_tls :: "kube_block \<Rightarrow> bool" where
  "get_use_tls k = attr_or (kb_use_tls k) False"

text \<open>The structs \<open>kubeConn\<close>, \<open>tlsConfig\<close> and \<open>apiClient\<close>; a nil pointer is \<open>None\<close>.\<close>

record kubeConn =
  configPath :: string
  nameSpace :: string
  serviceName :: string
  localPort :: string
  remotePort :: string
  kubeConfig :: "rest_config option"
  kubeClient :: "clientset option"

record tlsConfig =
  caCert :: string
  clientCert :: string
  clientKey :: string
  insecure :: bool

record apiClient0 =
  client :: "api_Client option"
  url :: string
  kubeConn :: kubeConn

record apiClient = apiClient0 +
  tlsAdded :: bool
  tlsConfig :: tlsConfig

text \<open>The zero values \<open>kubeConn{}\<close>, \<open>tlsConfig{}\<close> and \<open>&apiClient{}\<close>.\<close>

definition zero_kubeConn :: kubeConn where
  "zero_kubeConn = \<lparr>configPath = '''', nameSpace = '''', serviceName = '''',
     localPort = '''', remotePort = '''', kubeConfig = None, kubeClient = None\<rparr>"

definition zero_tlsConfig :: tlsConfig where
  "zero_tlsConfig = \<lparr>caCert = '''', clientCert = '''', clientKey = '''', insecure = False\<rparr>"

definition zero_apiClient :: apiClient where
  "zero_apiClient = \<lparr>client = None, url = '''', kubeConn = zero_kubeConn,
     tlsAdded = False, tlsConfig = zero_tlsConfig\<rparr>"

section \<open>configure, as in src/unnamed/part\_000\<close>

text \<open>
  \<open>strings.Contains(path, "~")\<close> and \<open>strings.Replace(path, "~", homeDir, -1)\<close>: the
  needle of the source is the one-byte string \<open>"~"\<close>, so the model takes a byte.
\<close>

definition strings_Contains :: "string \<Rightarrow> char \<Rightarrow> bool" where
  "strings_Contains s c = (c \<in> set s)"

definition strings_Replace :: "string \<Rightarrow> char \<Rightarrow> string \<Rightarrow> string" where
  "strings_Replace s c new = concat (map (\<lambda>x. if x = c then new else [x]) s)"

definition homeDir :: "world \<Rightarrow> (go_error + string) \<times> event list" where
  "homeDir w =
     (let h = os_Getenv w ''HOME'' in
      (if h \<noteq> '''' then Inr h else Inl ''unable to get HOME directory'', [Getenv ''HOME'']))"

text \<open>Lines 195 to 203: the kube config path, with \<open>~\<close> replaced by the home directory.\<close>

definition expand_path :: "world \<Rightarrow> string \<Rightarrow> (go_error + string) \<times> event list" where
  "expand_path w path =
     (if strings_Contains path (CHR ''~'')
      then (case homeDir w of
              (Inl err, t) \<Rightarrow> (Inl err, t)
            | (Inr h, t) \<Rightarrow> (Inr (strings_Replace path (CHR ''~'') h), t))
      else (Inr path, []))"

text \<open>
  Lines 192 to 240, the branch \<open>len(k) > 0\<close>, on the first block \<open>k[0]\<close>. The result
  is the early return of the source (\<open>Inl\<close>) or the handle as it stands at line 240.
\<close>

definition configure_kube ::
  "world \<Rightarrow> kube_block \<Rightarrow> apiClient \<Rightarrow> (diagnostics + apiClient) \<times> event list"
where
  "configure_kube w k a =
     (case expand_path w (get_path k) of
        (Inl err, t) \<Rightarrow> (Inl (diag_FromErr err), t)
      | (Inr path, t) \<Rightarrow>
     (case clientcmd_BuildConfigFromFlags w '''' path of
        Inl err \<Rightarrow> (Inl (diag_FromErr err), t @ [BuildConfigFromFlags '''' path])
      | Inr kcfg \<Rightarrow>
     (case kubernetes_NewForConfig w kcfg of
        Inl err \<Rightarrow>
          (Inl (diag_FromErr err), t @ [BuildConfigFromFlags '''' path, NewForConfig kcfg])
      | Inr kcl \<Rightarrow>
     (let t = t @ [BuildConfigFromFlags '''' path, NewForConfig kcfg];
          a = a\<lparr>kubeConn := (kubeConn a)\<lparr>kubeConfig := Some kcfg, kubeClient := Some kcl\<rparr>\<rparr>
      in if get_namespace k = ''''
         then (Inl (diag_Errorf ''Vault namespace is not specified''), t)
         else if get_service k = ''''
         then (Inl (diag_Errorf ''Vault service name is not specified''), t)
         else
           (let a = a\<lparr>kubeConn := (kubeConn a)\<lparr>nameSpace := get_namespace k,
                      serviceName := get_service k, localPort := get_local_port k,
                      remotePort := get_remote_port k\<rparr>\<rparr>
            in if get_use_tls k
               then (Inr (a\<lparr>url := ''https://localhost:'' @ localPort (kubeConn a),
                             tlsConfig := \<lparr>caCert = '''', clientCert = '''',
                                           clientKey = '''', insecure = False\<rparr>,
                             tlsAdded := True\<rparr>), t)
               else (Inr (a\<lparr>url := ''http://localhost:'' @ localPort (kubeConn a),
                             tlsAdded := False\<rparr>), t))))))"

text \<open>Lines 241 to 252, the branch without a \<open>kube_config\<close> block.\<close>

definition configure_addr ::
  "world \<Rightarrow> kube_block provider_config \<Rightarrow> apiClient \<Rightarrow> apiClient \<times> event list"
where
  "configure_addr w d a =
     (if get_vault_addr d \<noteq> ''''
      then (a\<lparr>url := get_vault_addr d, tlsAdded := False\<rparr>, [])
      else if get_vault_url d \<noteq> ''''
      then (a\<lparr>url := get_vault_url d, tlsAdded := False\<rparr>, [])
      else (a\<lparr>url := os_Getenv w envVaultAddr, tlsAdded := False\<rparr>, [Getenv envVaultAddr]))"

text \<open>
  Lines 254 to 279: the check of the address, \<open>ConfigureTLS\<close> when \<open>tlsAdded\<close>, and the
  construction of the Vault client.
\<close>

definition apply_tls ::
  "world \<Rightarrow> apiClient \<Rightarrow> api_Config \<Rightarrow> (go_error + api_Config) \<times> event list"
where
  "apply_tls w a vaultConfig =
     (if tlsAdded a
      then (let tc = \<lparr>CACert = caCert (tlsConfig a), ClientCert = clientCert (tlsConfig a),
                      ClientKey = clientKey (tlsConfig a), Insecure = insecure (tlsConfig a)\<rparr>
            in case api_ConfigureTLS w vaultConfig tc of
                 Some err \<Rightarrow>
                   (Inl err, ConfigureTLS tc #
                      logError ''failed to configure Vault API client with TLS: %v'' [err])
               | None \<Rightarrow> (Inr (vaultConfig\<lparr>TLSApplied := Some tc\<rparr>), [ConfigureTLS tc]))
      else (Inr vaultConfig, []))"

definition configure_client ::
  "world \<Rightarrow> apiClient \<Rightarrow> (diagnostics + apiClient) \<times> event list"
where
  "configure_client w a =
     (if url a = ''''
      then (Inl (diag_Errorf (''argument '' @ [CHR 0x27] @ argVaultUrl @ [CHR 0x27]
                   @ '' is required, or set VAULT_ADDR environment variable'')), [])
      else
        (case apply_tls w a \<lparr>Address = url a, TLSApplied = None\<rparr> of
           (Inl err, t) \<Rightarrow> (Inl (diag_FromErr err), t)
         | (Inr vaultConfig, t) \<Rightarrow>
             (case api_NewClient w vaultConfig of
                Inl err \<Rightarrow>
                  (Inl (diag_FromErr err), t @ NewClient vaultConfig #
                     logError ''failed to create Vault API client: %v'' [err])
              | Inr c \<Rightarrow> (Inr (a\<lparr>client := Some c\<rparr>), t @ [NewClient vaultConfig]))))"

text \<open>The function returned by \<open>configure(version, p)\<close>, applied to the configuration.\<close>

definition configure ::
  "world \<Rightarrow> kube_block provider_config \<Rightarrow> (diagnostics + apiClient) \<times> event list"
where
  "configure w d =
     (case (case cfg_kube_config d of
              k # _ \<Rightarrow> configure_kube w k zero_apiClient
            | [] \<Rightarrow> (case configure_addr w d zero_apiClient of (a, t) \<Rightarrow> (Inr a, t))) of
        (Inl ds, t) \<Rightarrow> (Inl ds, t)
      | (Inr a, t) \<Rightarrow> (case configure_client w a of (r, t') \<Rightarrow> (r, t @ t')))"

section \<open>configure, as in src/internal/provider/provider.go\<close>

text \<open>
  This revision declares no TLS attribute: its block is \<open>kube_block0\<close>, its handle
  \<open>apiClient0\<close>, the tunnel address is always \<open>http\<close>, and the client is built from
  \<open>api.Config{Address: a.url}\<close>. The model of each part carries the suffix \<open>0\<close>.
\<close>

definition zero_apiClient0 :: apiClient0 where
  "zero_apiClient0 = \<lparr>client = None, url = '''', kubeConn = zero_kubeConn\<rparr>"

text \<open>Lines 148 to 190.\<close>

definition configure_kube0 ::
  "world \<Rightarrow> kube_block0 \<Rightarrow> apiClient0 \<Rightarrow> (diagnostics + apiClient0) \<times> event list"
where
  "configure_kube0 w k a =
     (case expand_path w (get_path k) of
        (Inl err, t) \<Rightarrow> (Inl (diag_FromErr err), t)
      | (Inr path, t) \<Rightarrow>
     (case clientcmd_BuildConfigFromFlags w '''' path of
        Inl err \<Rightarrow> (Inl (diag_FromErr err), t @ [BuildConfigFromFlags '''' path])
      | Inr kcfg \<Rightarrow>
     (case kubernetes_NewForConfig w kcfg of
        Inl err \<Rightarrow>
          (Inl (diag_FromErr err), t @ [BuildConfigFromFlags '''' path, NewForConfig kcfg])
      | Inr kcl \<Rightarrow>
     (let t = t @ [BuildConfigFromFlags '''' path, NewForConfig kcfg];
          a = a\<lparr>kubeConn := (kubeConn a)\<lparr>kubeConfig := Some kcfg, kubeClient := Some kcl\<rparr>\<rparr>
      in if get_namespace k = ''''
         then (Inl (diag_Errorf ''Vault namespace is not specified''), t)
         else if get_service k = ''''
         then (Inl (diag_Errorf ''Vault service name is not specified''), t)
         else
           (let a = a\<lparr>kubeConn := (kubeConn a)\<lparr>nameSpace := get_namespace k,
                      serviceName := get_service k, localPort := get_local_port k,
                      remotePort := get_remote_port k\<rparr>\<rparr>
            in (Inr (a\<lparr>url := ''http://localhost:'' @ localPort (kubeConn a)\<rparr>), t))))))"

text \<open>Lines 191 to 199.\<close>

definition configure_addr0 ::
  "world \<Rightarrow> kube_block0 provider_config \<Rightarrow> apiClient0 \<Rightarrow> apiClient0 \<times> event list"
where
  "configure_addr0 w d a =
     (if get_vault_addr d \<noteq> ''''
      then (a\<lparr>url := get_vault_addr d\<rparr>, [])
      else if get_vault_url d \<noteq> ''''
      then (a\<lparr>url := get_vault_url d\<rparr>, [])
      else (a\<lparr>url := os_Getenv w envVaultAddr\<rparr>, [Getenv envVaultAddr]))"

text \<open>Lines 201 to 212.\<close>

definition configure_client0 ::
  "world \<Rightarrow> apiClient0 \<Rightarrow> (diagnostics + apiClient0) \<times> event list"
where
  "configure_client0 w a =
     (if url a = ''''
      then (Inl (diag_Errorf (''argument '' @ [CHR 0x27] @ argVaultUrl @ [CHR 0x27]
                   @ '' is required, or set VAULT_ADDR environment variable'')), [])
      else
        (case api_NewClient w \<lparr>Address = url a, TLSApplied = None\<rparr> of
           Inl err \<Rightarrow>
             (Inl (diag_FromErr err), NewClient \<lparr>Address = url a, TLSApplied = None\<rparr> #
                logError ''failed to create Vault API client: %v'' [err])
         | Inr c \<Rightarrow>
             (Inr (a\<lparr>client := Some c\<rparr>), [NewClient \<lparr>Address = url a, TLSApplied = None\<rparr>])))"

definition configure0 ::
  "world \<Rightarrow> kube_block0 provider_config \<Rightarrow> (diagnostics + apiClient0) \<times> event list"
where
  "configure0 w d =
     (case (case cfg_kube_config d of
              k # _ \<Rightarrow> configure_kube0 w k zero_apiClient0
            | [] \<Rightarrow> (case configure_addr0 w d zero_apiClient0 of (a, t) \<Rightarrow> (Inr a, t))) of
        (Inl ds, t) \<Rightarrow> (Inl ds, t)
      | (Inr a, t) \<Rightarrow> (case configure_client0 w a of (r, t') \<Rightarrow> (r, t @ t')))"

section \<open>The init resource, in src/internal/provider/data\_source\_test.go\<close>

abbreviation argSecretShares :: string where "argSecretShares \<equiv> ''secret_shares''"
abbreviation argSecretThreshold :: string where "argSecretThreshold \<equiv> ''secret_threshold''"
abbreviation argRootToken :: string where "argRootToken \<equiv> ''root_token''"
abbreviation argKeys :: string where "argKeys \<equiv> ''keys''"
abbreviation argKeysBase64 :: string where "argKeysBase64 \<equiv> ''keys_base64''"

text \<open>
  \<open>schema.ResourceData\<close>: the resource identity and the attributes by name, each an
  integer, a string or a list of strings as the schema of \<open>resourceInit\<close> types them.
  The Go code mutates \<open>d\<close> in place; the model returns the new value.
\<close>

datatype attr = AInt int | AString string | AList "string list"

record ResourceData =
  rd_Id :: string
  rd_attrs :: "string \<rightharpoonup> attr"

definition d_Id :: "ResourceData \<Rightarrow> string" where
  "d_Id d = rd_Id d"

definition d_SetId :: "ResourceData \<Rightarrow> string \<Rightarrow> ResourceData" where
  "d_SetId d v = d\<lparr>rd_Id := v\<rparr>"

definition d_Get :: "ResourceData \<Rightarrow> string \<Rightarrow> attr option" where
  "d_Get d key = rd_attrs d key"

definition d_Set :: "ResourceData \<Rightarrow> string \<Rightarrow> attr \<Rightarrow> ResourceData" where
  "d_Set d key v = d\<lparr>rd_attrs := (rd_attrs d)(key \<mapsto> v)\<rparr>"

text \<open>
  \<open>d.Get(key).(int)\<close>: an unset integer attribute reads as the zero value; the type
  assertion panics (\<open>None\<close>) on a value that is not an integer.
\<close>

definition d_Get_int :: "ResourceData \<Rightarrow> string \<Rightarrow> int option" where
  "d_Get_int d key =
     (case d_Get d key of None \<Rightarrow> Some 0 | Some (AInt n) \<Rightarrow> Some n | Some _ \<Rightarrow> None)"

text \<open>A call either panics or returns.\<close>

datatype 'a outcome = Panic | Return 'a

definition updateState :: "ResourceData \<Rightarrow> string \<Rightarrow> api_InitResponse \<Rightarrow> ResourceData" where
  "updateState d id' res =
     (let d = d_SetId d id';
          d = d_Set d argRootToken (AString (RootToken res));
          d = d_Set d argKeys (AList (Keys res));
          d = d_Set d argKeysBase64 (AList (KeysB64 res))
      in d)"

text \<open>
  The lifecycle functions (lines 108 to 182) return their Go result, the resource data as
  they leave it and the calls they made. \<open>meta\<close> is the handle \<open>configure\<close> returned,
  of either revision; calling a method of the nil \<open>client.client\<close> panics.
\<close>

definition resourceInitCreate ::
  "world \<Rightarrow> ResourceData \<Rightarrow> 'z apiClient0_scheme
     \<Rightarrow> diagnostics outcome \<times> ResourceData \<times> event list"
where
  "resourceInitCreate w d meta =
     (case (d_Get_int d argSecretShares, d_Get_int d argSecretThreshold) of
        (Some shares, Some threshold) \<Rightarrow>
          (let req = \<lparr>SecretShares = shares, SecretThreshold = threshold\<rparr>
           in case client meta of
                None \<Rightarrow> (Panic, d, [])
              | Some c \<Rightarrow>
                  (case sys_Init w c req of
                     Inl err \<Rightarrow>
                       (Return (diag_FromErr err), d,
                        Init c req # logError ''failed to initialize Vault: %v'' [err])
                   | Inr res \<Rightarrow>
                       (Return [], updateState d (client_Address c) res, [Init c req])))
      | _ \<Rightarrow> (Panic, d, []))"

definition resourceInitRead ::
  "world \<Rightarrow> ResourceData \<Rightarrow> 'z apiClient0_scheme
     \<Rightarrow> diagnostics outcome \<times> ResourceData \<times> event list"
where
  "resourceInitRead w d meta = (Return (diag_Errorf ''not implemented''), d, [])"

definition resourceInitUpdate ::
  "world \<Rightarrow> ResourceData \<Rightarrow> 'z apiClient0_scheme
     \<Rightarrow> diagnostics outcome \<times> ResourceData \<times> event list"
where
  "resourceInitUpdate w d meta = (Return (diag_Errorf ''not implemented''), d, [])"

definition resourceInitDelete ::
  "world \<Rightarrow> ResourceData \<Rightarrow> 'z apiClient0_scheme
     \<Rightarrow> diagnostics outcome \<times> ResourceData \<times> event list"
where
  "resourceInitDelete w d meta = (Return (diag_Errorf ''not implemented''), d, [])"

text \<open>
  \<open>filepath.Join\<close> and \<open>filepath.Clean\<close> of Go's standard library on a Unix system,
  which the importer calls on the host and path of the identifier. \<open>Clean\<close> drops empty
  and \<open>.\<close> elements, lets each \<open>..\<close> remove the element before it (or drops it at the
  root, or keeps it at the front of a relative path), and returns \<open>.\<close> for an empty
  result. \<open>Join\<close> cleans the elements from the first non-empty one on, joined by
  slashes, and returns the empty string when there is none.
\<close>

fun split_slash :: "string \<Rightarrow> string list" where
  "split_slash [] = [[]]"
| "split_slash (c # cs) =
     (if c = CHR ''/'' then [] # split_slash cs
      else (case split_slash cs of e # es \<Rightarrow> (c # e) # es | [] \<Rightarrow> [[c]]))"

fun join_slash :: "string list \<Rightarrow> string" where
  "join_slash [] = []"
| "join_slash [e] = e"
| "join_slash (e # es) = e @ CHR ''/'' # join_slash es"

definition clean_step :: "bool \<Rightarrow> string list \<Rightarrow> string \<Rightarrow> string list" where
  "clean_step rooted out e =
     (if e = '''' \<or> e = ''.'' then out
      else if e = ''..''
      then (if out \<noteq> [] \<and> last out \<noteq> ''..'' then butlast out
            else if rooted then out else out @ [e])
      else out @ [e])"

definition filepath_Clean :: "string \<Rightarrow> string" where
  "filepath_Clean path =
     (case path of
        [] \<Rightarrow> ''.''
      | c # _ \<Rightarrow>
          (let rooted = (c = CHR ''/'');
               out = join_slash (foldl (clean_step rooted) [] (split_slash path))
           in if rooted then CHR ''/'' # out else if out = '''' then ''.'' else out))"

definition filepath_Join :: "string list \<Rightarrow> string" where
  "filepath_Join elem =
     (case dropWhile (\<lambda>e. e = '''') elem of
        [] \<Rightarrow> ''''
      | es \<Rightarrow> filepath_Clean (join_slash es))"

definition resourceInitImporter ::
  "world \<Rightarrow> ResourceData \<Rightarrow> 'z apiClient0_scheme
     \<Rightarrow> (go_error + ResourceData list) outcome \<times> ResourceData \<times> event list"
where
  "resourceInitImporter w d meta =
     (let id' = d_Id d
      in case url_Parse w id' of
           Inl err \<Rightarrow> (Return (Inl err), d, logError ''failed parsing id url %v'' [err])
         | Inr u \<Rightarrow>
             if Scheme u \<noteq> ''file''
             then (Return (Inl ''unsupported scheme''), d, logError ''unsupported scheme'' [])
             else
               (let p = filepath_Join [Host u, Path u]
                in case ioutil_ReadFile w p of
                     Inl err \<Rightarrow>
                       (Return (Inl err), d,
                        ReadFile p # logError ''failed reading file %v'' [err])
                   | Inr fc \<Rightarrow>
                       (case json_Unmarshal w fc of
                          Inl err \<Rightarrow>
                            (Return (Inl err), d,
                             ReadFile p # logError ''failed unmarshalling json: %v'' [err])
                        | Inr initResponse \<Rightarrow>
                            (case client meta of
                               None \<Rightarrow> (Panic, d, [ReadFile p])
                             | Some c \<Rightarrow>
                                 (let d' = updateState d (client_Address c) initResponse
                                  in (Return (Inr [d']), d', [ReadFile p]))))))"

section \<open>The addresses and settings the specification names\<close>

text \<open>
  The address of a tunnelled connection in the specification's words: scheme \<open>https\<close>
  when \<open>use_tls\<close> is true, else \<open>http\<close>, host \<open>localhost\<close>, and the configured
  \<open>local_port\<close>, \<open>8200\<close> when it is left out.
\<close>

definition spec_tunnel_address :: "kube_block \<Rightarrow> string" where
  "spec_tunnel_address k =
     (if kb_use_tls k = Some True then ''https://localhost:'' else ''http://localhost:'')
       @ (case kb_local_port k of Some p \<Rightarrow> p | None \<Rightarrow> ''8200'')"

text \<open>
  The address of a direct connection in the specification's words: \<open>vault_addr\<close> if
  non-empty, else \<open>vault_url\<close> if non-empty, else the environment variable.
\<close>

definition spec_direct_address :: "world \<Rightarrow> ('b, 'z) provider_config_scheme \<Rightarrow> string" where
  "spec_direct_address w d =
     (if get_vault_addr d \<noteq> '''' then get_vault_addr d
      else if get_vault_url d \<noteq> '''' then get_vault_url d
      else os_Getenv w envVaultAddr)"

text \<open>The TLS settings that line 235 of \<open>configure\<close> writes into the handle.\<close>

definition hardcoded_tls :: api_TLSConfig where
  "hardcoded_tls = \<lparr>CACert = '''', ClientCert = '''', ClientKey = '''', Insecure = False\<rparr>"

section \<open>Concrete worlds and configurations\<close>

definition ex_init_response :: api_InitResponse where
  "ex_init_response = \<lparr>Keys = [''k1''], KeysB64 = [''a2k=''], RootToken = ''t1''\<rparr>"

definition ex_file :: string where
  "ex_file = ''{\"keys\":[\"k1\"],\"keys_base64\":[\"a2k=\"],\"root_token\":\"t1\"}''"

text \<open>
  A world in which every collaborator succeeds: the home directory and \<open>VAULT_ADDR\<close> are
  set, the Vault client reports the address it was built for, the server is not yet
  initialised, and \<open>/tmp/x.json\<close> holds the initialisation output above.
\<close>

definition ex_world :: world where
  "ex_world =
     \<lparr>os_Getenv = (\<lambda>n. if n = ''HOME'' then ''/home/u''
                        else if n = ''VAULT_ADDR'' then ''http://vault.example:8200'' else ''''),
      clientcmd_BuildConfigFromFlags = (\<lambda>m p. Inr (RestConfig p)),
      kubernetes_NewForConfig = (\<lambda>c. Inr (Clientset c)),
      api_ConfigureTLS = (\<lambda>c t. None),
      api_NewClient = (\<lambda>c. Inr \<lparr>client_Address = Address c\<rparr>),
      sys_Init = (\<lambda>c r. Inr ex_init_response),
      url_Parse = (\<lambda>s.
         if s = ''file:///tmp/x.json''
         then Inr \<lparr>Scheme = ''file'', Host = '''', Path = ''/tmp/x.json''\<rparr>
         else if s = ''file:///a/b.json''
         then Inr \<lparr>Scheme = ''file'', Host = '''', Path = ''/a/b.json''\<rparr>
         else if s = ''file://name.json''
         then Inr \<lparr>Scheme = ''file'', Host = ''name.json'', Path = ''''\<rparr>
         else if s = ''https://example.com/x.json''
         then Inr \<lparr>Scheme = ''https'', Host = ''example.com'', Path = ''/x.json''\<rparr>
         else Inl ''parse error''),
      ioutil_ReadFile = (\<lambda>p. if p = ''/tmp/x.json'' then Inr ex_file
                              else Inl ''no such file or directory''),
      json_Unmarshal = (\<lambda>b. if b = ex_file then Inr ex_init_response
                             else Inl ''unexpected end of JSON input'')\<rparr>"

text \<open>The same world once the server is initialised, and one with an empty environment.\<close>

definition ex_world_initialized :: world where
  "ex_world_initialized = ex_world\<lparr>sys_Init := (\<lambda>c r. Inl ''Vault is already initialized'')\<rparr>"

definition ex_world_noenv :: world where
  "ex_world_noenv = ex_world\<lparr>os_Getenv := (\<lambda>n. '''')\<rparr>"

definition ex_tls_block :: kube_block where
  "ex_tls_block =
     \<lparr>kb_path = None, kb_namespace = Some ''vault'', kb_service = Some ''vault-active'',
      kb_local_port = None, kb_remote_port = None, kb_use_tls = Some True,
      kb_ca_cert = Some ''ca.pem'', kb_client_cert = Some ''client.pem'',
      kb_client_key = Some ''client.key'', kb_use_insecure_tls = Some True\<rparr>"

definition ex_plain_block :: kube_block where
  "ex_plain_block =
     \<lparr>kb_path = Some ''/etc/kube/config'', kb_namespace = Some ''vault'',
      kb_service = Some ''vault-active'', kb_local_port = Some ''18200'',
      kb_remote_port = None, kb_use_tls = None, kb_ca_cert = None, kb_client_cert = None,
      kb_client_key = None, kb_use_insecure_tls = None\<rparr>"

definition ex_empty_block :: kube_block where
  "ex_empty_block =
     \<lparr>kb_path = None, kb_namespace = None, kb_service = None,
      kb_local_port = None, kb_remote_port = None, kb_use_tls = None,
      kb_ca_cert = None, kb_client_cert = None,
      kb_client_key = None, kb_use_insecure_tls = None\<rparr>"

definition ex_tunnel_config :: "kube_block provider_config" where
  "ex_tunnel_config =
     \<lparr>cfg_vault_url = None, cfg_vault_addr = Some ''http://10.0.0.1:8200'',
      cfg_request_headers = [], cfg_kube_config = [ex_tls_block]\<rparr>"

definition ex_plain_tunnel_config :: "kube_block provider_config" where
  "ex_plain_tunnel_config =
     \<lparr>cfg_vault_url = Some ''http://old.example:8200'', cfg_vault_addr = None,
      cfg_request_headers = [], cfg_kube_config = [ex_plain_block]\<rparr>"

definition ex_no_namespace_config :: "kube_block provider_config" where
  "ex_no_namespace_config =
     \<lparr>cfg_vault_url = None, cfg_vault_addr = None,
      cfg_request_headers = [], cfg_kube_config = [ex_empty_block]\<rparr>"

definition ex_direct_config :: "kube_block provider_config" where
  "ex_direct_config =
     \<lparr>cfg_vault_url = Some ''http://old.example:8200'', cfg_vault_addr = Some ''http://10.0.0.1:8200'',
      cfg_request_headers = [], cfg_kube_config = []\<rparr>"

definition ex_empty_config :: "kube_block provider_config" where
  "ex_empty_config =
     \<lparr>cfg_vault_url = None, cfg_vault_addr = None,
      cfg_request_headers = [], cfg_kube_config = []\<rparr>"

definition ex_handle :: apiClient where
  "ex_handle = zero_apiClient\<lparr>client := Some \<lparr>client_Address = ''http://10.0.0.1:8200''\<rparr>,
                              url := ''http://10.0.0.1:8200''\<rparr>"

definition ex_new_resource :: ResourceData where
  "ex_new_resource =
     \<lparr>rd_Id = '''', rd_attrs = [argSecretShares \<mapsto> AInt 5, argSecretThreshold \<mapsto> AInt 3]\<rparr>"

definition ex_import :: "string \<Rightarrow> ResourceData" where
  "ex_import ident = \<lparr>rd_Id = ident, rd_attrs = Map.empty\<rparr>"

section \<open>Helper facts about configure\<close>

lemma get_use_tls_iff: "get_use_tls k \<longleftrightarrow> kb_use_tls k = Some True"
  by (simp add: get_use_tls_def attr_or_def split: option.splits)

lemma client_constructions_append:
  "client_constructions (xs @ ys) = client_constructions xs @ client_constructions ys"
  by (induction xs rule: client_constructions.induct) simp_all

lemma tls_applications_append:
  "tls_applications (xs @ ys) = tls_applications xs @ tls_applications ys"
  by (induction xs rule: tls_applications.induct) simp_all

lemma spec_tunnel_address_nonempty: "spec_tunnel_address k \<noteq> ''''"
  by (simp add: spec_tunnel_address_def)

lemma configure_kube_url:
  assumes "configure_kube w k a = (Inr a', t)"
  shows "url a' = spec_tunnel_address k"
  using assms
  by (auto simp: configure_kube_def spec_tunnel_address_def get_use_tls_iff get_local_port_def
        attr_or_def Let_def split: prod.splits sum.splits if_splits option.splits)

lemma configure_kube_no_client:
  "client_constructions (snd (configure_kube w k a)) = []"
  by (auto simp: configure_kube_def expand_path_def homeDir_def Let_def
        split: prod.splits sum.splits if_splits option.splits)

lemma configure_client_url:
  assumes "configure_client w a = (Inr a', t)"
  shows "url a' = url a"
  using assms
  by (auto simp: configure_client_def split: prod.splits sum.splits if_splits)

lemma configure_client_constructions:
  "\<forall>c \<in> set (client_constructions (snd (configure_client w a))). Address c = url a"
  by (auto simp: configure_client_def apply_tls_def logError_def Let_def
        split: prod.splits sum.splits if_splits option.splits)

lemma configure_kube_succeeds:
  assumes "get_namespace k \<noteq> ''''" "get_service k \<noteq> ''''"
    and "expand_path w (get_path k) = (Inr p, t)"
    and "clientcmd_BuildConfigFromFlags w '''' p = Inr kcfg"
    and "kubernetes_NewForConfig w kcfg = Inr kcl"
  shows "\<exists>a'. fst (configure_kube w k a) = Inr a' \<and> url a' = spec_tunnel_address k
            \<and> tlsAdded a' = (kb_use_tls k = Some True)
            \<and> (tlsAdded a' \<longrightarrow> tlsConfig a' = zero_tlsConfig)"
  using assms
  by (simp add: configure_kube_def spec_tunnel_address_def get_use_tls_iff get_local_port_def
        attr_or_def Let_def zero_tlsConfig_def split: option.splits)

lemma configure_client_succeeds:
  assumes "url a \<noteq> ''''"
    and "tlsAdded a \<Longrightarrow> api_ConfigureTLS w \<lparr>Address = url a, TLSApplied = None\<rparr>
            \<lparr>CACert = caCert (tlsConfig a), ClientCert = clientCert (tlsConfig a),
             ClientKey = clientKey (tlsConfig a), Insecure = insecure (tlsConfig a)\<rparr> = None"
    and "api_NewClient w \<lparr>Address = url a, TLSApplied =
            (if tlsAdded a then Some \<lparr>CACert = caCert (tlsConfig a), ClientCert = clientCert (tlsConfig a),
             ClientKey = clientKey (tlsConfig a), Insecure = insecure (tlsConfig a)\<rparr> else None)\<rparr> = Inr c"
  shows "fst (configure_client w a) = Inr (a\<lparr>client := Some c\<rparr>)"
  using assms
  by (cases "tlsAdded a") (simp_all add: configure_client_def apply_tls_def Let_def)

lemma configure_tunnel_url:
  assumes "cfg_kube_config d = k # ks" "fst (configure w d) = Inr a"
  shows "url a = spec_tunnel_address k"
proof -
  obtain r t where r: "configure_kube w k zero_apiClient = (r, t)"
    by (cases "configure_kube w k zero_apiClient")
  show ?thesis
  proof (cases r)
    case (Inl ds)
    with r assms show ?thesis by (simp add: configure_def)
  next
    case (Inr a0)
    obtain r' t' where r': "configure_client w a0 = (r', t')"
      by (cases "configure_client w a0")
    from r Inr r' assms have "r' = Inr a" by (simp add: configure_def)
    with r' have "url a = url a0" using configure_client_url by blast
    moreover from r Inr have "url a0 = spec_tunnel_address k" using configure_kube_url by blast
    ultimately show ?thesis by simp
  qed
qed

lemma configure_tunnel_constructions:
  assumes "cfg_kube_config d = k # ks"
  shows "\<forall>c \<in> set (client_constructions (snd (configure w d))). Address c = spec_tunnel_address k"
proof -
  obtain r t where r: "configure_kube w k zero_apiClient = (r, t)"
    by (cases "configure_kube w k zero_apiClient")
  have t: "client_constructions t = []"
    using configure_kube_no_client [of w k zero_apiClient] r by simp
  show ?thesis
  proof (cases r)
    case (Inl ds)
    with r t assms show ?thesis by (simp add: configure_def)
  next
    case (Inr a0)
    obtain r' t' where r': "configure_client w a0 = (r', t')"
      by (cases "configure_client w a0")
    from r Inr have u: "url a0 = spec_tunnel_address k" using configure_kube_url by blast
    from r Inr r' assms have "snd (configure w d) = t @ t'" by (simp add: configure_def)
    then have "client_constructions (snd (configure w d)) = client_constructions t'"
      using t by (simp add: client_constructions_append)
    with configure_client_constructions [of w a0] r' u show ?thesis by simp
  qed
qed

lemma configure_tunnel_ignores_address:
  assumes "cfg_kube_config d = k # ks"
  shows "configure w (d\<lparr>cfg_vault_addr := va, cfg_vault_url := vu\<rparr>) = configure w d"
  using assms by (simp add: configure_def)

lemma configure_tunnel_succeeds:
  assumes "cfg_kube_config d = k # ks" "get_namespace k \<noteq> ''''" "get_service k \<noteq> ''''"
    and "expand_path w (get_path k) = (Inr p, t)"
    and "clientcmd_BuildConfigFromFlags w '''' p = Inr kcfg"
    and "kubernetes_NewForConfig w kcfg = Inr kcl"
    and "kb_use_tls k = Some True \<longrightarrow>
           api_ConfigureTLS w \<lparr>Address = spec_tunnel_address k, TLSApplied = None\<rparr> hardcoded_tls = None"
    and "api_NewClient w \<lparr>Address = spec_tunnel_address k,
           TLSApplied = (if kb_use_tls k = Some True then Some hardcoded_tls else None)\<rparr> = Inr c"
  shows "\<exists>a. fst (configure w d) = Inr a \<and> url a = spec_tunnel_address k \<and> client a = Some c"
proof -
  from configure_kube_succeeds [OF assms(2-6), of zero_apiClient]
  obtain a' where a': "fst (configure_kube w k zero_apiClient) = Inr a'"
    "url a' = spec_tunnel_address k" "tlsAdded a' = (kb_use_tls k = Some True)"
    "tlsAdded a' \<longrightarrow> tlsConfig a' = zero_tlsConfig" by blast
  have "fst (configure_client w a') = Inr (a'\<lparr>client := Some c\<rparr>)"
  proof (rule configure_client_succeeds)
    show "url a' \<noteq> ''''" using a'(2) spec_tunnel_address_nonempty by simp
  next
    assume "tlsAdded a'"
    then show "api_ConfigureTLS w \<lparr>Address = url a', TLSApplied = None\<rparr>
            \<lparr>CACert = caCert (tlsConfig a'), ClientCert = clientCert (tlsConfig a'),
             ClientKey = clientKey (tlsConfig a'), Insecure = insecure (tlsConfig a')\<rparr> = None"
      using a' assms(7) by (simp add: zero_tlsConfig_def hardcoded_tls_def)
  next
    show "api_NewClient w \<lparr>Address = url a', TLSApplied =
            (if tlsAdded a' then Some \<lparr>CACert = caCert (tlsConfig a'), ClientCert = clientCert (tlsConfig a'),
             ClientKey = clientKey (tlsConfig a'), Insecure = insecure (tlsConfig a')\<rparr> else None)\<rparr> = Inr c"
      using a' assms(8)
      by (cases "kb_use_tls k = Some True") (simp_all add: zero_tlsConfig_def hardcoded_tls_def)
  qed
  with a' assms(1) show ?thesis
    by (cases "configure_kube w k zero_apiClient"; cases "configure_client w a'")
       (simp add: configure_def)
qed

lemmas configure_defs = configure_def configure_kube_def configure_addr_def
  configure_client_def apply_tls_def expand_path_def homeDir_def strings_Contains_def
  strings_Replace_def get_path_def get_namespace_def get_service_def get_local_port_def
  get_remote_port_def get_use_tls_def get_vault_addr_def get_vault_url_def attr_or_def
  zero_apiClient_def zero_kubeConn_def zero_tlsConfig_def logError_def Let_def

section \<open>The tunnelled address\<close>

text \<open>
  Claim C2. When the configuration has a \<open>kube_config\<close> block with non-empty namespace
  and service, every handle \<open>configure\<close> returns has the address
  \<open>https://localhost:<local_port>\<close> when \<open>use_tls\<close> is true and
  \<open>http://localhost:<local_port>\<close> otherwise, with port \<open>8200\<close> when none is
  written; every Vault client construction of the run is for that address; \<open>vault_addr\<close>
  and \<open>vault_url\<close> do not change the run; and when the home directory lookup, the
  Kubernetes library, \<open>ConfigureTLS\<close> and \<open>api.NewClient\<close> succeed, \<open>configure\<close>
  does return such a handle.
\<close>

theorem configure_tunnel_address:
  assumes "cfg_kube_config d = k # ks" and "get_namespace k \<noteq> ''''" and "get_service k \<noteq> ''''"
  shows "(\<forall>a. fst (configure w d) = Inr a \<longrightarrow> url a = spec_tunnel_address k)
       \<and> (\<forall>c \<in> set (client_constructions (snd (configure w d))). Address c = spec_tunnel_address k)
       \<and> configure w (d\<lparr>cfg_vault_addr := va, cfg_vault_url := vu\<rparr>) = configure w d
       \<and> (\<forall>p t kcfg kcl c.
            expand_path w (get_path k) = (Inr p, t)
            \<and> clientcmd_BuildConfigFromFlags w '''' p = Inr kcfg
            \<and> kubernetes_NewForConfig w kcfg = Inr kcl
            \<and> (kb_use_tls k = Some True \<longrightarrow>
                 api_ConfigureTLS w \<lparr>Address = spec_tunnel_address k, TLSApplied = None\<rparr>
                   hardcoded_tls = None)
            \<and> api_NewClient w \<lparr>Address = spec_tunnel_address k,
                 TLSApplied = (if kb_use_tls k = Some True then Some hardcoded_tls else None)\<rparr>
                 = Inr c
            \<longrightarrow> (\<exists>a. fst (configure w d) = Inr a \<and> url a = spec_tunnel_address k
                      \<and> client a = Some c))"
proof (intro conjI allI impI)
  fix a assume "fst (configure w d) = Inr a"
  with assms(1) show "url a = spec_tunnel_address k" by (rule configure_tunnel_url)
next
  show "\<forall>c \<in> set (client_constructions (snd (configure w d))). Address c = spec_tunnel_address k"
    using assms(1) by (rule configure_tunnel_constructions)
next
  show "configure w (d\<lparr>cfg_vault_addr := va, cfg_vault_url := vu\<rparr>) = configure w d"
    using assms(1) by (rule configure_tunnel_ignores_address)
next
  fix p t kcfg kcl c
  assume h: "expand_path w (get_path k) = (Inr p, t)
            \<and> clientcmd_BuildConfigFromFlags w '''' p = Inr kcfg
            \<and> kubernetes_NewForConfig w kcfg = Inr kcl
            \<and> (kb_use_tls k = Some True \<longrightarrow>
                 api_ConfigureTLS w \<lparr>Address = spec_tunnel_address k, TLSApplied = None\<rparr>
                   hardcoded_tls = None)
            \<and> api_NewClient w \<lparr>Address = spec_tunnel_address k,
                 TLSApplied = (if kb_use_tls k = Some True then Some hardcoded_tls else None)\<rparr>
                 = Inr c"
  show "\<exists>a. fst (configure w d) = Inr a \<and> url a = spec_tunnel_address k \<and> client a = Some c"
    using configure_tunnel_succeeds [OF assms, of w p t kcfg kcl c] h by blast
qed

theorem configure_tunnel_address_witness:
  "cfg_kube_config ex_tunnel_config = [ex_tls_block]
   \<and> get_namespace ex_tls_block = ''vault'' \<and> get_service ex_tls_block = ''vault-active''
   \<and> (\<exists>a. fst (configure ex_world ex_tunnel_config) = Inr a \<and> url a = ''https://localhost:8200''
          \<and> client a = Some \<lparr>client_Address = ''https://localhost:8200''\<rparr>)
   \<and> cfg_kube_config ex_plain_tunnel_config = [ex_plain_block]
   \<and> get_namespace ex_plain_block = ''vault'' \<and> get_service ex_plain_block = ''vault-active''
   \<and> (\<exists>a. fst (configure ex_world ex_plain_tunnel_config) = Inr a
          \<and> url a = ''http://localhost:18200''
          \<and> client a = Some \<lparr>client_Address = ''http://localhost:18200''\<rparr>)"
proof -
  have k: "cfg_kube_config ex_tunnel_config = ex_tls_block # []"
    by (simp add: ex_tunnel_config_def)
  have ns: "get_namespace ex_tls_block \<noteq> ''''" and sv: "get_service ex_tls_block \<noteq> ''''"
    by (simp_all add: get_namespace_def get_service_def attr_or_def ex_tls_block_def)
  have s: "spec_tunnel_address ex_tls_block = ''https://localhost:8200''"
    by (simp add: spec_tunnel_address_def ex_tls_block_def)
  have e: "expand_path ex_world (get_path ex_tls_block) =
             (Inr ''/home/u/.kube/config'', [Getenv ''HOME''])"
    by (simp add: expand_path_def homeDir_def strings_Contains_def strings_Replace_def
          get_path_def attr_or_def ex_tls_block_def ex_world_def)
  have tls: "\<exists>a. fst (configure ex_world ex_tunnel_config) = Inr a
          \<and> url a = spec_tunnel_address ex_tls_block
          \<and> client a = Some \<lparr>client_Address = ''https://localhost:8200''\<rparr>"
    using configure_tunnel_address [OF k ns sv, of ex_world] e s
    by (simp add: ex_world_def)
  have k': "cfg_kube_config ex_plain_tunnel_config = ex_plain_block # []"
    by (simp add: ex_plain_tunnel_config_def)
  have ns': "get_namespace ex_plain_block \<noteq> ''''"
    and sv': "get_service ex_plain_block \<noteq> ''''"
    by (simp_all add: get_namespace_def get_service_def attr_or_def ex_plain_block_def)
  have s': "spec_tunnel_address ex_plain_block = ''http://localhost:18200''"
    by (simp add: spec_tunnel_address_def ex_plain_block_def)
  have e': "expand_path ex_world (get_path ex_plain_block) = (Inr ''/etc/kube/config'', [])"
    by (simp add: expand_path_def strings_Contains_def get_path_def attr_or_def
          ex_plain_block_def)
  have u': "kb_use_tls ex_plain_block = None"
    by (simp add: ex_plain_block_def)
  have plain: "\<exists>a. fst (configure ex_world ex_plain_tunnel_config) = Inr a
          \<and> url a = spec_tunnel_address ex_plain_block
          \<and> client a = Some \<lparr>client_Address = ''http://localhost:18200''\<rparr>"
    using configure_tunnel_address [OF k' ns' sv', of ex_world] e' s' u'
    by (simp add: ex_world_def)
  from tls plain s s' show ?thesis
    by (simp add: ex_tunnel_config_def ex_plain_tunnel_config_def get_namespace_def
          get_service_def attr_or_def ex_tls_block_def ex_plain_block_def)
qed

section \<open>The direct address\<close>

lemma configure_direct_result:
  assumes "cfg_kube_config d = []"
  shows "fst (configure w d) =
     (if spec_direct_address w d = ''''
      then Inl (diag_Errorf
             ''argument 'vault_url' is required, or set VAULT_ADDR environment variable'')
      else case api_NewClient w \<lparr>Address = spec_direct_address w d, TLSApplied = None\<rparr> of
             Inl err \<Rightarrow> Inl (diag_FromErr err)
           | Inr c \<Rightarrow> Inr (zero_apiClient\<lparr>url := spec_direct_address w d, client := Some c\<rparr>))"
  using assms
  by (simp add: configure_def configure_addr_def configure_client_def apply_tls_def
        spec_direct_address_def zero_apiClient_def split: sum.splits)

lemma configure_direct_trace:
  assumes "cfg_kube_config d = []"
  shows "client_constructions (snd (configure w d)) =
     (if spec_direct_address w d = '''' then []
      else [\<lparr>Address = spec_direct_address w d, TLSApplied = None\<rparr>])"
  using assms
  by (simp add: configure_def configure_addr_def configure_client_def apply_tls_def
        logError_def spec_direct_address_def zero_apiClient_def split: sum.splits)

text \<open>
  Claim C3. Without a \<open>kube_config\<close> block the address is \<open>vault_addr\<close> if non-empty,
  else \<open>vault_url\<close> if non-empty, else the environment variable \<open>VAULT_ADDR\<close>. When
  that address is empty, \<open>configure\<close> returns no handle but the error diagnostic naming
  \<open>vault_url\<close> and \<open>VAULT_ADDR\<close>, and constructs no client. Otherwise it constructs
  one client, for that address, and returns the handle bound to it, or the error of
  \<open>api.NewClient\<close>.
\<close>

theorem configure_direct_address:
  assumes "cfg_kube_config d = []"
  shows "fst (configure w d) =
          (if spec_direct_address w d = ''''
           then Inl (diag_Errorf
                  ''argument 'vault_url' is required, or set VAULT_ADDR environment variable'')
           else case api_NewClient w \<lparr>Address = spec_direct_address w d, TLSApplied = None\<rparr> of
                  Inl err \<Rightarrow> Inl (diag_FromErr err)
                | Inr c \<Rightarrow>
                    Inr (zero_apiClient\<lparr>url := spec_direct_address w d, client := Some c\<rparr>))
       \<and> client_constructions (snd (configure w d)) =
          (if spec_direct_address w d = '''' then []
           else [\<lparr>Address = spec_direct_address w d, TLSApplied = None\<rparr>])"
  using configure_direct_result [OF assms] configure_direct_trace [OF assms] by blast

theorem configure_direct_address_witness:
  "cfg_kube_config ex_direct_config = []
   \<and> fst (configure ex_world ex_direct_config) =
       Inr (zero_apiClient\<lparr>url := ''http://10.0.0.1:8200'',
              client := Some \<lparr>client_Address = ''http://10.0.0.1:8200''\<rparr>\<rparr>)
   \<and> client_constructions (snd (configure ex_world ex_direct_config)) =
       [\<lparr>Address = ''http://10.0.0.1:8200'', TLSApplied = None\<rparr>]
   \<and> cfg_kube_config ex_empty_config = []
   \<and> fst (configure ex_world ex_empty_config) =
       Inr (zero_apiClient\<lparr>url := ''http://vault.example:8200'',
              client := Some \<lparr>client_Address = ''http://vault.example:8200''\<rparr>\<rparr>)
   \<and> fst (configure ex_world_noenv ex_empty_config) =
       Inl [\<lparr>Severity = Error, Summary =
              ''argument 'vault_url' is required, or set VAULT_ADDR environment variable''\<rparr>]
   \<and> client_constructions (snd (configure ex_world_noenv ex_empty_config)) = []"
proof -
  have k1: "cfg_kube_config ex_direct_config = []" by (simp add: ex_direct_config_def)
  have k2: "cfg_kube_config ex_empty_config = []" by (simp add: ex_empty_config_def)
  have a1: "spec_direct_address ex_world ex_direct_config = ''http://10.0.0.1:8200''"
    by (simp add: spec_direct_address_def get_vault_addr_def attr_or_def ex_direct_config_def)
  have a2: "spec_direct_address ex_world ex_empty_config = ''http://vault.example:8200''"
    by (simp add: spec_direct_address_def get_vault_addr_def get_vault_url_def attr_or_def
          ex_empty_config_def ex_world_def)
  have a3: "spec_direct_address ex_world_noenv ex_empty_config = ''''"
    by (simp add: spec_direct_address_def get_vault_addr_def get_vault_url_def attr_or_def
          ex_empty_config_def ex_world_noenv_def ex_world_def)
  have n: "api_NewClient ex_world c = Inr \<lparr>client_Address = Address c\<rparr>" for c
    by (simp add: ex_world_def)
  show ?thesis
    using configure_direct_address [OF k1, of ex_world]
      configure_direct_address [OF k2, of ex_world]
      configure_direct_address [OF k2, of ex_world_noenv] k1 k2
    by (simp add: a1 a2 a3 n diag_Errorf_def)
qed

section \<open>The provider.go revision without TLS\<close>

lemma configure0_direct_result:
  assumes "cfg_kube_config d = []"
  shows "fst (configure0 w d) =
     (if spec_direct_address w d = ''''
      then Inl (diag_Errorf
             ''argument 'vault_url' is required, or set VAULT_ADDR environment variable'')
      else case api_NewClient w \<lparr>Address = spec_direct_address w d, TLSApplied = None\<rparr> of
             Inl err \<Rightarrow> Inl (diag_FromErr err)
           | Inr c \<Rightarrow> Inr (zero_apiClient0\<lparr>url := spec_direct_address w d, client := Some c\<rparr>))"
  using assms
  by (simp add: configure0_def configure_addr0_def configure_client0_def
        spec_direct_address_def zero_apiClient0_def split: sum.splits)

lemma configure_kube0_url:
  assumes "configure_kube0 w k a = (Inr a', t)"
  shows "url a' = ''http://localhost:'' @ (case kb_local_port k of Some p \<Rightarrow> p | None \<Rightarrow> ''8200'')"
  using assms
  by (auto simp: configure_kube0_def get_local_port_def
        attr_or_def Let_def split: prod.splits sum.splits if_splits option.splits)

lemma configure_client0_url:
  assumes "configure_client0 w a = (Inr a', t)"
  shows "url a' = url a"
  using assms
  by (auto simp: configure_client0_def split: prod.splits sum.splits if_splits)

lemma configure0_tunnel_url:
  assumes "cfg_kube_config d = k # ks" "fst (configure0 w d) = Inr a"
  shows "url a = ''http://localhost:'' @ (case kb_local_port k of Some p \<Rightarrow> p | None \<Rightarrow> ''8200'')"
proof -
  obtain r t where r: "configure_kube0 w k zero_apiClient0 = (r, t)"
    by (cases "configure_kube0 w k zero_apiClient0")
  show ?thesis
  proof (cases r)
    case (Inl ds)
    with r assms show ?thesis by (simp add: configure0_def)
  next
    case (Inr a0)
    obtain r' t' where r': "configure_client0 w a0 = (r', t')"
      by (cases "configure_client0 w a0")
    from r Inr r' assms have "r' = Inr a" by (simp add: configure0_def)
    with r' have "url a = url a0" using configure_client0_url by blast
    moreover from r Inr have "url a0 = ''http://localhost:'' @ (case kb_local_port k of Some p \<Rightarrow> p | None \<Rightarrow> ''8200'')"
      using configure_kube0_url by blast
    ultimately show ?thesis by simp
  qed
qed

section \<open>A tunnel block without a namespace\<close>

text \<open>
  The error \<open>configure\<close> returns for a block whose namespace is empty: the first failure
  among the home directory lookup, the cluster configuration, the cluster client, and
  then the namespace check.
\<close>

lemma configure_kube_empty_namespace:
  assumes "get_namespace k = ''''"
  shows "fst (configure_kube w k a) =
     Inl (case expand_path w (get_path k) of
            (Inl err, t) \<Rightarrow> diag_FromErr err
          | (Inr p, t) \<Rightarrow>
              (case clientcmd_BuildConfigFromFlags w '''' p of
                 Inl err \<Rightarrow> diag_FromErr err
               | Inr kcfg \<Rightarrow>
                   (case kubernetes_NewForConfig w kcfg of
                      Inl err \<Rightarrow> diag_FromErr err
                    | Inr kcl \<Rightarrow> diag_Errorf ''Vault namespace is not specified'')))"
  using assms
  by (simp add: configure_kube_def Let_def split: prod.splits sum.splits)

lemma configure_fails_in_kube:
  assumes "cfg_kube_config d = k # ks" and "fst (configure_kube w k zero_apiClient) = Inl ds"
  shows "configure w d = (Inl ds, snd (configure_kube w k zero_apiClient))"
  using assms by (cases "configure_kube w k zero_apiClient") (simp add: configure_def)

text \<open>
  Claim C4, as amended. For a \<open>kube_config\<close> block with an empty namespace,
  \<open>configure\<close> returns an error and never calls \<open>api.NewClient\<close>. The error is
  \<open>Vault namespace is not specified\<close> when the home directory lookup (made when the
  path contains \<open>~\<close>), \<open>BuildConfigFromFlags\<close> and \<open>NewForConfig\<close> succeed; when
  one of them fails, the error is that of the first to fail.
\<close>

theorem configure_empty_namespace:
  assumes "cfg_kube_config d = k # ks" and "get_namespace k = ''''"
  shows "fst (configure w d) =
          Inl (case expand_path w (get_path k) of
                 (Inl err, t) \<Rightarrow> diag_FromErr err
               | (Inr p, t) \<Rightarrow>
                   (case clientcmd_BuildConfigFromFlags w '''' p of
                      Inl err \<Rightarrow> diag_FromErr err
                    | Inr kcfg \<Rightarrow>
                        (case kubernetes_NewForConfig w kcfg of
                           Inl err \<Rightarrow> diag_FromErr err
                         | Inr kcl \<Rightarrow> diag_Errorf ''Vault namespace is not specified'')))
       \<and> client_constructions (snd (configure w d)) = []"
proof -
  note e = configure_kube_empty_namespace [OF assms(2), of w zero_apiClient]
  note c = configure_fails_in_kube [OF assms(1) e]
  show ?thesis
    using c configure_kube_no_client [of w k zero_apiClient] by simp
qed

theorem configure_empty_namespace_witness:
  "cfg_kube_config ex_no_namespace_config = [ex_empty_block]
   \<and> get_namespace ex_empty_block = ''''
   \<and> fst (configure ex_world ex_no_namespace_config) =
       Inl [\<lparr>Severity = Error, Summary = ''Vault namespace is not specified''\<rparr>]
   \<and> client_constructions (snd (configure ex_world ex_no_namespace_config)) = []"
proof -
  have k: "cfg_kube_config ex_no_namespace_config = ex_empty_block # []"
    by (simp add: ex_no_namespace_config_def)
  have ns: "get_namespace ex_empty_block = ''''"
    by (simp add: get_namespace_def attr_or_def ex_empty_block_def)
  have e: "expand_path ex_world (get_path ex_empty_block) =
             (Inr ''/home/u/.kube/config'', [Getenv ''HOME''])"
    by (simp add: expand_path_def homeDir_def strings_Contains_def strings_Replace_def
          get_path_def attr_or_def ex_empty_block_def ex_world_def)
  have b: "clientcmd_BuildConfigFromFlags ex_world m p = Inr (RestConfig p)" for m p
    by (simp add: ex_world_def)
  have n: "kubernetes_NewForConfig ex_world c = Inr (Clientset c)" for c
    by (simp add: ex_world_def)
  show ?thesis
    using configure_empty_namespace [OF k ns, of ex_world] k ns
    by (simp add: e b n diag_Errorf_def)
qed

text \<open>
  Claim C4 as stated fails: with the default path \<open>~/.kube/config\<close> and no \<open>HOME\<close> in
  the environment, a block without a namespace gets the home directory error, which does
  not mention the namespace.
\<close>

theorem configure_empty_namespace_counterexample:
  "cfg_kube_config ex_no_namespace_config = [ex_empty_block]
   \<and> get_namespace ex_empty_block = ''''
   \<and> fst (configure ex_world_noenv ex_no_namespace_config) =
       Inl [\<lparr>Severity = Error, Summary = ''unable to get HOME directory''\<rparr>]
   \<and> fst (configure ex_world_noenv ex_no_namespace_config) \<noteq>
       Inl (diag_Errorf ''Vault namespace is not specified'')"
  by (simp add: configure_defs ex_no_namespace_config_def ex_empty_block_def
        ex_world_noenv_def ex_world_def diag_FromErr_def diag_Errorf_def)

section \<open>The TLS settings of a tunnel\<close>

lemma apply_tls_applications:
  "tls_applications (snd (apply_tls w a c)) =
     (if tlsAdded a
      then [\<lparr>CACert = caCert (tlsConfig a), ClientCert = clientCert (tlsConfig a),
              ClientKey = clientKey (tlsConfig a), Insecure = insecure (tlsConfig a)\<rparr>]
      else [])"
  by (simp add: apply_tls_def logError_def Let_def split: option.splits)

lemma configure_client_tls_applications:
  "tls_applications (snd (configure_client w a)) =
     (if url a \<noteq> '''' \<and> tlsAdded a
      then [\<lparr>CACert = caCert (tlsConfig a), ClientCert = clientCert (tlsConfig a),
              ClientKey = clientKey (tlsConfig a), Insecure = insecure (tlsConfig a)\<rparr>]
      else [])"
  using apply_tls_applications [of w a "\<lparr>Address = url a, TLSApplied = None\<rparr>"]
  by (cases "apply_tls w a \<lparr>Address = url a, TLSApplied = None\<rparr>")
     (auto simp: configure_client_def logError_def tls_applications_append
        split: sum.splits)

lemma configure_kube_tls:
  assumes "configure_kube w k a = (Inr a', t)"
  shows "tls_applications t = [] \<and> url a' \<noteq> '''' \<and> tlsAdded a' = (kb_use_tls k = Some True)
       \<and> (tlsAdded a' \<longrightarrow> tlsConfig a' = zero_tlsConfig)"
  using assms
  by (auto simp: configure_kube_def expand_path_def homeDir_def get_use_tls_iff
        zero_tlsConfig_def Let_def split: prod.splits sum.splits if_splits)

text \<open>
  Whatever the block says, the settings handed to \<open>ConfigureTLS\<close> in a run that builds a
  handle for a tunnel with \<open>use_tls\<close> are the constants of line 235.
\<close>

lemma configure_tunnel_tls_settings:
  assumes "cfg_kube_config d = k # ks" and "fst (configure w d) = Inr a"
    and "kb_use_tls k = Some True"
  shows "tls_applications (snd (configure w d)) = [hardcoded_tls]"
proof -
  obtain r t where r: "configure_kube w k zero_apiClient = (r, t)"
    by (cases "configure_kube w k zero_apiClient")
  show ?thesis
  proof (cases r)
    case (Inl ds)
    with r assms show ?thesis by (simp add: configure_def)
  next
    case (Inr a0)
    obtain r' t' where r': "configure_client w a0 = (r', t')"
      by (cases "configure_client w a0")
    from r Inr have f: "tls_applications t = []" "url a0 \<noteq> ''''" "tlsAdded a0"
      "tlsConfig a0 = zero_tlsConfig"
      using configure_kube_tls [of w k zero_apiClient a0 t] assms(3) by simp_all
    from r Inr r' assms have "snd (configure w d) = t @ t'" by (simp add: configure_def)
    then have "tls_applications (snd (configure w d)) = tls_applications t'"
      using f by (simp add: tls_applications_append)
    with configure_client_tls_applications [of w a0] r' f show ?thesis
      by (simp add: zero_tlsConfig_def hardcoded_tls_def)
  qed
qed

text \<open>
  Claim C1 does not hold on the code. The block of \<open>ex_tunnel_config\<close> asks for TLS with
  \<open>ca_cert = ca.pem\<close>, \<open>client_cert = client.pem\<close>, \<open>client_key = client.key\<close> and
  \<open>use_insecure_tls = true\<close>; the run hands \<open>ConfigureTLS\<close> three empty strings and
  \<open>Insecure = false\<close>, and the client is built from a configuration with those settings.
\<close>

theorem configure_tls_material_not_forwarded:
  "kb_use_tls ex_tls_block = Some True
   \<and> kb_ca_cert ex_tls_block = Some ''ca.pem''
   \<and> kb_client_cert ex_tls_block = Some ''client.pem''
   \<and> kb_client_key ex_tls_block = Some ''client.key''
   \<and> kb_use_insecure_tls ex_tls_block = Some True
   \<and> tls_applications (snd (configure ex_world ex_tunnel_config)) =
       [\<lparr>CACert = '''', ClientCert = '''', ClientKey = '''', Insecure = False\<rparr>]
   \<and> client_constructions (snd (configure ex_world ex_tunnel_config)) =
       [\<lparr>Address = ''https://localhost:8200'',
         TLSApplied = Some \<lparr>CACert = '''', ClientCert = '''', ClientKey = '''',
                             Insecure = False\<rparr>\<rparr>]"
  by (simp add: configure_defs ex_tunnel_config_def ex_tls_block_def ex_world_def)

section \<open>The state update\<close>

lemma updateState_Id: "d_Id (updateState d address R) = address"
  by (simp add: updateState_def d_Id_def d_SetId_def d_Set_def)

lemma updateState_Get:
  "d_Get (updateState d address R) key =
     (if key = argKeysBase64 then Some (AList (KeysB64 R))
      else if key = argKeys then Some (AList (Keys R))
      else if key = argRootToken then Some (AString (RootToken R))
      else d_Get d key)"
  by (simp add: updateState_def d_Get_def d_SetId_def d_Set_def)

lemma updateState_Get_int:
  "d_Get_int (updateState d address R) argSecretShares = d_Get_int d argSecretShares"
  "d_Get_int (updateState d address R) argSecretThreshold = d_Get_int d argSecretThreshold"
  by (simp_all add: d_Get_int_def updateState_Get)

text \<open>
  Claim C9. After \<open>updateState d address R\<close> the identity of the resource is \<open>address\<close>
  and the attributes \<open>root_token\<close>, \<open>keys\<close> and \<open>keys_base64\<close> read back as the root
  token, the key list and the base64 key list of \<open>R\<close>, the lists as they are.
\<close>

theorem updateState_roundtrip:
  "d_Id (updateState d address R) = address
   \<and> d_Get (updateState d address R) argRootToken = Some (AString (RootToken R))
   \<and> d_Get (updateState d address R) argKeys = Some (AList (Keys R))
   \<and> d_Get (updateState d address R) argKeysBase64 = Some (AList (KeysB64 R))"
  by (simp add: updateState_Id updateState_Get)

section \<open>Read, update and delete\<close>

text \<open>
  Claim C7. \<open>resourceInitRead\<close>, \<open>resourceInitUpdate\<close> and \<open>resourceInitDelete\<close> each
  return the one error diagnostic \<open>not implemented\<close>, leave the resource data as it was
  and call nothing.
\<close>

theorem lifecycle_not_implemented:
  "resourceInitRead w d meta =
     (Return [\<lparr>Severity = Error, Summary = ''not implemented''\<rparr>], d, [])
   \<and> resourceInitUpdate w d meta =
     (Return [\<lparr>Severity = Error, Summary = ''not implemented''\<rparr>], d, [])
   \<and> resourceInitDelete w d meta =
     (Return [\<lparr>Severity = Error, Summary = ''not implemented''\<rparr>], d, [])"
  by (simp add: resourceInitRead_def resourceInitUpdate_def resourceInitDelete_def
        diag_Errorf_def)

section \<open>Create\<close>

lemma create_fails:
  assumes "d_Get_int d argSecretShares = Some n" and "d_Get_int d argSecretThreshold = Some m"
    and "client meta = Some c"
    and "sys_Init w c \<lparr>SecretShares = n, SecretThreshold = m\<rparr> = Inl err"
  shows "resourceInitCreate w d meta =
     (Return (diag_FromErr err), d,
      [Init c \<lparr>SecretShares = n, SecretThreshold = m\<rparr>,
       Printf ''[ERROR] failed to initialize Vault: %v'' [err]])"
  using assms by (simp add: resourceInitCreate_def logError_def)

lemma create_succeeds:
  assumes "d_Get_int d argSecretShares = Some n" and "d_Get_int d argSecretThreshold = Some m"
    and "client meta = Some c"
    and "sys_Init w c \<lparr>SecretShares = n, SecretThreshold = m\<rparr> = Inr res"
  shows "resourceInitCreate w d meta =
     (Return [], updateState d (client_Address c) res,
      [Init c \<lparr>SecretShares = n, SecretThreshold = m\<rparr>])"
  using assms by (simp add: resourceInitCreate_def)

text \<open>
  Claim C8. When the \<open>Init\<close> call of \<open>resourceInitCreate\<close> fails, the function returns
  the diagnostic made from that error and the resource data is what it was. In
  particular, after a create that succeeded in a world \<open>w0\<close>, a create that fails in
  \<open>w\<close> leaves the identity and the attributes the first one stored.
\<close>

theorem create_failure_keeps_state:
  assumes "d_Get_int d argSecretShares = Some n" and "d_Get_int d argSecretThreshold = Some m"
    and "client meta = Some c"
    and "sys_Init w c \<lparr>SecretShares = n, SecretThreshold = m\<rparr> = Inl err"
  shows "fst (resourceInitCreate w d meta) = Return [\<lparr>Severity = Error, Summary = err\<rparr>]
       \<and> fst (snd (resourceInitCreate w d meta)) = d
       \<and> (sys_Init w0 c \<lparr>SecretShares = n, SecretThreshold = m\<rparr> = Inr res \<longrightarrow>
            fst (snd (resourceInitCreate w0 d meta)) = updateState d (client_Address c) res
            \<and> fst (resourceInitCreate w (fst (snd (resourceInitCreate w0 d meta))) meta) =
                Return [\<lparr>Severity = Error, Summary = err\<rparr>]
            \<and> fst (snd (resourceInitCreate w (fst (snd (resourceInitCreate w0 d meta))) meta)) =
                updateState d (client_Address c) res)"
proof (intro conjI impI)
  show "fst (resourceInitCreate w d meta) = Return [\<lparr>Severity = Error, Summary = err\<rparr>]"
    using create_fails [OF assms] by (simp add: diag_FromErr_def)
  show "fst (snd (resourceInitCreate w d meta)) = d"
    using create_fails [OF assms] by simp
next
  assume ok: "sys_Init w0 c \<lparr>SecretShares = n, SecretThreshold = m\<rparr> = Inr res"
  let ?d1 = "updateState d (client_Address c) res"
  have d1: "fst (snd (resourceInitCreate w0 d meta)) = ?d1"
    using create_succeeds [OF assms(1-3) ok] by simp
  have g: "d_Get_int ?d1 argSecretShares = Some n" "d_Get_int ?d1 argSecretThreshold = Some m"
    using assms(1,2) by (simp_all add: updateState_Get_int)
  note f = create_fails [OF g assms(3,4)]
  show "fst (snd (resourceInitCreate w0 d meta)) = ?d1" by (rule d1)
  show "fst (resourceInitCreate w (fst (snd (resourceInitCreate w0 d meta))) meta) =
          Return [\<lparr>Severity = Error, Summary = err\<rparr>]"
    using f d1 by (simp add: diag_FromErr_def)
  show "fst (snd (resourceInitCreate w (fst (snd (resourceInitCreate w0 d meta))) meta)) = ?d1"
    using f d1 by simp
qed

theorem create_failure_keeps_state_witness:
  "d_Get_int ex_new_resource argSecretShares = Some 5
   \<and> d_Get_int ex_new_resource argSecretThreshold = Some 3
   \<and> client ex_handle = Some \<lparr>client_Address = ''http://10.0.0.1:8200''\<rparr>
   \<and> fst (resourceInitCreate ex_world_initialized ex_new_resource ex_handle) =
       Return [\<lparr>Severity = Error, Summary = ''Vault is already initialized''\<rparr>]
   \<and> fst (snd (resourceInitCreate ex_world_initialized ex_new_resource ex_handle)) =
       ex_new_resource
   \<and> fst (snd (resourceInitCreate ex_world ex_new_resource ex_handle)) =
       updateState ex_new_resource ''http://10.0.0.1:8200'' ex_init_response
   \<and> fst (resourceInitCreate ex_world_initialized
            (fst (snd (resourceInitCreate ex_world ex_new_resource ex_handle))) ex_handle) =
       Return [\<lparr>Severity = Error, Summary = ''Vault is already initialized''\<rparr>]
   \<and> fst (snd (resourceInitCreate ex_world_initialized
            (fst (snd (resourceInitCreate ex_world ex_new_resource ex_handle))) ex_handle)) =
       updateState ex_new_resource ''http://10.0.0.1:8200'' ex_init_response"
proof -
  have s: "d_Get_int ex_new_resource argSecretShares = Some 5"
    and t: "d_Get_int ex_new_resource argSecretThreshold = Some 3"
    by (simp_all add: d_Get_int_def d_Get_def ex_new_resource_def)
  have c: "client ex_handle = Some \<lparr>client_Address = ''http://10.0.0.1:8200''\<rparr>"
    by (simp add: ex_handle_def)
  have i: "sys_Init ex_world_initialized \<lparr>client_Address = ''http://10.0.0.1:8200''\<rparr>
             \<lparr>SecretShares = 5, SecretThreshold = 3\<rparr> = Inl ''Vault is already initialized''"
    by (simp add: ex_world_initialized_def)
  have i0: "sys_Init ex_world \<lparr>client_Address = ''http://10.0.0.1:8200''\<rparr>
             \<lparr>SecretShares = 5, SecretThreshold = 3\<rparr> = Inr ex_init_response"
    by (simp add: ex_world_def)
  have a: "client_Address \<lparr>client_Address = ''http://10.0.0.1:8200''\<rparr> = ''http://10.0.0.1:8200''"
    by simp
  show ?thesis
    using create_failure_keeps_state [OF s t c i, of ex_world ex_init_response] s t c i0
    unfolding a by blast
qed

section \<open>Import\<close>

lemma importer_other_scheme:
  assumes "url_Parse w (d_Id d) = Inr u" and "Scheme u \<noteq> ''file''"
  shows "resourceInitImporter w d meta =
     (Return (Inl ''unsupported scheme''), d, [Printf ''[ERROR] unsupported scheme'' []])"
  using assms by (simp add: resourceInitImporter_def logError_def)

lemma importer_file_reads:
  assumes "url_Parse w (d_Id d) = Inr u" and "Scheme u = ''file''"
  shows "file_reads (snd (snd (resourceInitImporter w d meta))) =
     [filepath_Join [Host u, Path u]]"
  using assms
  by (simp add: resourceInitImporter_def logError_def Let_def split: sum.splits option.splits)

lemma importer_succeeds:
  assumes "url_Parse w (d_Id d) = Inr u" and "Scheme u = ''file''"
    and "ioutil_ReadFile w (filepath_Join [Host u, Path u]) = Inr fc"
    and "json_Unmarshal w fc = Inr R"
    and "client meta = Some c"
  shows "resourceInitImporter w d meta =
     (Return (Inr [updateState d (client_Address c) R]), updateState d (client_Address c) R,
      [ReadFile (filepath_Join [Host u, Path u])])"
  using assms by (simp add: resourceInitImporter_def Let_def)

lemma filepath_Join_host_only: "filepath_Join [''name.json'', ''''] = ''name.json''"
  by (simp add: filepath_Join_def filepath_Clean_def clean_step_def)

lemma filepath_Join_path_only: "filepath_Join ['''', ''/a/b.json''] = ''/a/b.json''"
  by (simp add: filepath_Join_def filepath_Clean_def clean_step_def)

text \<open>
  Claim C5. When the identifier parses as a URL whose scheme is not \<open>file\<close>, the importer
  returns the error \<open>unsupported scheme\<close>, reads no file and leaves the resource data as
  it was.
\<close>

theorem importer_unsupported_scheme:
  assumes "url_Parse w (d_Id d) = Inr u" and "Scheme u \<noteq> ''file''"
  shows "fst (resourceInitImporter w d meta) = Return (Inl ''unsupported scheme'')
       \<and> fst (snd (resourceInitImporter w d meta)) = d
       \<and> file_reads (snd (snd (resourceInitImporter w d meta))) = []"
  using importer_other_scheme [OF assms, of meta] by simp

theorem importer_unsupported_scheme_witness:
  "url_Parse ex_world (d_Id (ex_import ''https://example.com/x.json'')) =
     Inr \<lparr>Scheme = ''https'', Host = ''example.com'', Path = ''/x.json''\<rparr>
   \<and> fst (resourceInitImporter ex_world (ex_import ''https://example.com/x.json'') ex_handle) =
       Return (Inl ''unsupported scheme'')
   \<and> fst (snd (resourceInitImporter ex_world (ex_import ''https://example.com/x.json'')
            ex_handle)) = ex_import ''https://example.com/x.json''
   \<and> file_reads (snd (snd (resourceInitImporter ex_world
            (ex_import ''https://example.com/x.json'') ex_handle))) = []"
proof -
  have p: "url_Parse ex_world (d_Id (ex_import ''https://example.com/x.json'')) =
     Inr \<lparr>Scheme = ''https'', Host = ''example.com'', Path = ''/x.json''\<rparr>"
    by (simp add: ex_world_def ex_import_def d_Id_def)
  have s: "Scheme \<lparr>Scheme = ''https'', Host = ''example.com'', Path = ''/x.json''\<rparr> \<noteq> ''file''"
    by simp
  show ?thesis
    using importer_unsupported_scheme [OF p s, of ex_handle] p by blast
qed

text \<open>
  Claim C6. When the identifier parses as a \<open>file\<close> URL, the file at the joined host and
  path is read and its content decodes to the initialisation response \<open>R\<close>, the
  importer returns the one resource whose identity is the address of the handle's client
  and whose \<open>root_token\<close>, \<open>keys\<close> and \<open>keys_base64\<close> are those of \<open>R\<close>, and that
  resource is the state it leaves.
\<close>

theorem importer_file_state:
  assumes "url_Parse w (d_Id d) = Inr u" and "Scheme u = ''file''"
    and "ioutil_ReadFile w (filepath_Join [Host u, Path u]) = Inr fc"
    and "json_Unmarshal w fc = Inr R"
    and "client meta = Some c"
  shows "\<exists>d'. fst (resourceInitImporter w d meta) = Return (Inr [d'])
            \<and> fst (snd (resourceInitImporter w d meta)) = d'
            \<and> d_Id d' = client_Address c
            \<and> d_Get d' argRootToken = Some (AString (RootToken R))
            \<and> d_Get d' argKeys = Some (AList (Keys R))
            \<and> d_Get d' argKeysBase64 = Some (AList (KeysB64 R))"
  using importer_succeeds [OF assms] by (simp add: updateState_Id updateState_Get)

theorem importer_file_state_witness:
  "url_Parse ex_world (d_Id (ex_import ''file:///tmp/x.json'')) =
     Inr \<lparr>Scheme = ''file'', Host = '''', Path = ''/tmp/x.json''\<rparr>
   \<and> ioutil_ReadFile ex_world ''/tmp/x.json'' = Inr ex_file
   \<and> json_Unmarshal ex_world ex_file = Inr ex_init_response
   \<and> client ex_handle = Some \<lparr>client_Address = ''http://10.0.0.1:8200''\<rparr>
   \<and> (\<exists>d'. fst (resourceInitImporter ex_world (ex_import ''file:///tmp/x.json'') ex_handle) =
              Return (Inr [d'])
          \<and> fst (snd (resourceInitImporter ex_world (ex_import ''file:///tmp/x.json'')
                   ex_handle)) = d'
          \<and> d_Id d' = ''http://10.0.0.1:8200''
          \<and> d_Get d' argRootToken = Some (AString ''t1'')
          \<and> d_Get d' argKeys = Some (AList [''k1''])
          \<and> d_Get d' argKeysBase64 = Some (AList [''a2k='']))"
proof -
  have p: "url_Parse ex_world (d_Id (ex_import ''file:///tmp/x.json'')) =
     Inr \<lparr>Scheme = ''file'', Host = '''', Path = ''/tmp/x.json''\<rparr>"
    by (simp add: ex_world_def ex_import_def d_Id_def)
  have s: "Scheme \<lparr>Scheme = ''file'', Host = '''', Path = ''/tmp/x.json''\<rparr> = ''file''"
    by simp
  have j: "filepath_Join [Host \<lparr>Scheme = ''file'', Host = '''', Path = ''/tmp/x.json''\<rparr>,
             Path \<lparr>Scheme = ''file'', Host = '''', Path = ''/tmp/x.json''\<rparr>] = ''/tmp/x.json''"
    by (simp add: filepath_Join_def filepath_Clean_def clean_step_def)
  have f: "ioutil_ReadFile ex_world ''/tmp/x.json'' = Inr ex_file"
    by (simp add: ex_world_def)
  have f': "ioutil_ReadFile ex_world
      (filepath_Join [Host \<lparr>Scheme = ''file'', Host = '''', Path = ''/tmp/x.json''\<rparr>,
             Path \<lparr>Scheme = ''file'', Host = '''', Path = ''/tmp/x.json''\<rparr>]) = Inr ex_file"
    unfolding j by (rule f)
  have u: "json_Unmarshal ex_world ex_file = Inr ex_init_response"
    by (simp add: ex_world_def)
  have c: "client ex_handle = Some \<lparr>client_Address = ''http://10.0.0.1:8200''\<rparr>"
    by (simp add: ex_handle_def)
  have r: "client_Address \<lparr>client_Address = ''http://10.0.0.1:8200''\<rparr> = ''http://10.0.0.1:8200''"
    "RootToken ex_init_response = ''t1''" "Keys ex_init_response = [''k1'']"
    "KeysB64 ex_init_response = [''a2k='']"
    by (simp_all add: ex_init_response_def)
  show ?thesis
    using importer_file_state [OF p s f' u c] p f u c unfolding r by blast
qed

text \<open>
  Claim C10. For an identifier that parses as a \<open>file\<close> URL, the one path handed to
  \<open>ioutil.ReadFile\<close> is \<open>filepath.Join\<close> of the URL's host and path: the relative path
  \<open>name.json\<close> when the host is \<open>name.json\<close> and the path empty (\<open>file://name.json\<close>),
  the absolute path \<open>/a/b.json\<close> when the host is empty and the path \<open>/a/b.json\<close>
  (\<open>file:///a/b.json\<close>).
\<close>

theorem importer_reads_joined_path:
  assumes "url_Parse w (d_Id d) = Inr u" and "Scheme u = ''file''"
  shows "file_reads (snd (snd (resourceInitImporter w d meta))) =
           [filepath_Join [Host u, Path u]]
       \<and> (Host u = ''name.json'' \<and> Path u = '''' \<longrightarrow>
            file_reads (snd (snd (resourceInitImporter w d meta))) = [''name.json''])
       \<and> (Host u = '''' \<and> Path u = ''/a/b.json'' \<longrightarrow>
            file_reads (snd (snd (resourceInitImporter w d meta))) = [''/a/b.json''])"
  using importer_file_reads [OF assms, of meta]
  by (auto simp: filepath_Join_host_only filepath_Join_path_only)

theorem importer_reads_joined_path_witness:
  "url_Parse ex_world (d_Id (ex_import ''file://name.json'')) =
     Inr \<lparr>Scheme = ''file'', Host = ''name.json'', Path = ''''\<rparr>
   \<and> file_reads (snd (snd (resourceInitImporter ex_world (ex_import ''file://name.json'')
        ex_handle))) = [''name.json'']
   \<and> url_Parse ex_world (d_Id (ex_import ''file:///a/b.json'')) =
     Inr \<lparr>Scheme = ''file'', Host = '''', Path = ''/a/b.json''\<rparr>
   \<and> file_reads (snd (snd (resourceInitImporter ex_world (ex_import ''file:///a/b.json'')
        ex_handle))) = [''/a/b.json'']"
proof -
  have p1: "url_Parse ex_world (d_Id (ex_import ''file://name.json'')) =
     Inr \<lparr>Scheme = ''file'', Host = ''name.json'', Path = ''''\<rparr>"
    by (simp add: ex_world_def ex_import_def d_Id_def)
  have p2: "url_Parse ex_world (d_Id (ex_import ''file:///a/b.json'')) =
     Inr \<lparr>Scheme = ''file'', Host = '''', Path = ''/a/b.json''\<rparr>"
    by (simp add: ex_world_def ex_import_def d_Id_def)
  have s1: "Scheme \<lparr>Scheme = ''file'', Host = ''name.json'', Path = ''''\<rparr> = ''file''"
    and s2: "Scheme \<lparr>Scheme = ''file'', Host = '''', Path = ''/a/b.json''\<rparr> = ''file''"
    by simp_all
  show ?thesis
    using importer_reads_joined_path [OF p1 s1, of ex_handle]
      importer_reads_joined_path [OF p2 s2, of ex_handle] p1 p2
    by (simp add: filepath_Join_host_only filepath_Join_path_only)
qed

end
